theory Spec2Isabelle
  imports
    Complex_Main
    "HOL-Library.Sublist"
    "HOL-Library.Char_ord"
    "HOL-Library.List_Lexorder"
    "HOL-Library.Log_Nat"
begin

section \<open>The penguins dashboard: data model\<close>

text \<open>
  The script \<^verbatim>\<open>streamlit_app.py\<close> loads a table, reads four sidebar widgets, filters
  the table and renders metrics and charts. A data frame is modelled as the list of its
  rows, in row order. A row carries the columns the script reads; the record is
  extensible, so further columns of the CSV ride along untouched.

  The numeric columns are \<^verbatim>\<open>float64\<close> in pandas. A cell is modelled by the rational value of
  its float: \<^verbatim>\<open>dropna\<close> has removed the NaN cells, and the model covers tables whose cells
  are finite (an \<^verbatim>\<open>inf\<close> cell, which \<^verbatim>\<open>dropna\<close> keeps, and the sign of a zero are not
  represented). Comparisons between finite floats and integers are exact, so the
  filtering stage is modelled without loss. Arithmetic on cells is float arithmetic: each
  operation is rounded to the nearest double, as set out below.
\<close>

record penguin =
  species :: string
  island :: string
  sex :: string
  bill_length_mm :: rat
  bill_depth_mm :: rat
  body_mass_g :: rat

type_synonym frame = "penguin list"

text \<open>
  The widget values of one run: the three \<^verbatim>\<open>multiselect\<close> results (lists of options, empty
  when nothing is selected) and the \<^verbatim>\<open>slider\<close> result, a pair of Python ints because the
  slider is created with int bounds (lines 63 to 69).
\<close>

record selection =
  species_sel :: "string list"
  island_sel :: "string list"
  sex_sel :: "string list"
  body_mass_slider :: "int \<times> int"

subsection \<open>Filtering (lines 74 to 90)\<close>

text \<open>\<^verbatim>\<open>Series.isin(values)\<close>: the mask is true where the cell is one of the values.\<close>

definition isin :: "string \<Rightarrow> string list \<Rightarrow> bool" where
  "isin v vals = (v \<in> set vals)"

text \<open>
  \<^verbatim>\<open>df_selection = df.copy()\<close>, then one boolean-mask selection per non-empty multiselect
  (\<^verbatim>\<open>if species:\<close> is the truth value of a list: non-empty), then the slider mask, always.
\<close>

definition df_selection :: "frame \<Rightarrow> selection \<Rightarrow> frame" where
  "df_selection df c =
     (let d0 = df;
          d1 = (if species_sel c \<noteq> [] then filter (\<lambda>r. isin (species r) (species_sel c)) d0 else d0);
          d2 = (if island_sel c \<noteq> [] then filter (\<lambda>r. isin (island r) (island_sel c)) d1 else d1);
          d3 = (if sex_sel c \<noteq> [] then filter (\<lambda>r. isin (sex r) (sex_sel c)) d2 else d2)
      in filter (\<lambda>r. of_int (fst (body_mass_slider c)) \<le> body_mass_g r \<and>
                     body_mass_g r \<le> of_int (snd (body_mass_slider c))) d3)"

subsection \<open>Floating-point arithmetic\<close>

text \<open>Rounding to the nearest integer, a tie going to the even neighbour.\<close>

definition round_half_even :: "rat \<Rightarrow> int" where
  "round_half_even x =
     (let f = \<lfloor>x\<rfloor>; d = x - of_int f
      in if d < 1 / 2 then f else if 1 / 2 < d then f + 1 else if even f then f else f + 1)"

text \<open>The binary exponent of a positive rational: the largest \<open>k\<close> with \<open>2 ^ k \<le> x\<close>.\<close>

definition ilog2 :: "rat \<Rightarrow> int" where
  "ilog2 x = (let (p, q) = quotient_of x; k = bitlen p - bitlen q
              in if 2 powi k \<le> x then k else k - 1)"

text \<open>
  The double nearest to a rational: 53 significant bits, a tie going to the even
  significand. The exponent is not bounded, so \<open>fl\<close> is float64 rounding for magnitudes
  from \<open>2 ^ -1022\<close> up to the largest double, where nothing overflows or is subnormal.
  Every float operation of the script is the exact operation followed by \<open>fl\<close>.
\<close>

definition fl :: "rat \<Rightarrow> rat" where
  "fl x = (if x = 0 then 0
           else let e = ilog2 \<bar>x\<bar> - 52
                in sgn x * of_int (round_half_even (\<bar>x\<bar> / 2 powi e)) * 2 powi e)"

definition fadd :: "rat \<Rightarrow> rat \<Rightarrow> rat" where
  "fadd a b = fl (a + b)"

definition fsub :: "rat \<Rightarrow> rat \<Rightarrow> rat" where
  "fsub a b = fl (a - b)"

definition fmul :: "rat \<Rightarrow> rat \<Rightarrow> rat" where
  "fmul a b = fl (a * b)"

definition fdiv :: "rat \<Rightarrow> rat \<Rightarrow> rat" where
  "fdiv a b = fl (a / b)"

text \<open>
  \<^verbatim>\<open>ndarray.sum()\<close> of a float64 column is numpy's pairwise summation: fewer than 8 cells are
  added left to right; up to 128 cells are added into 8 running sums, cell \<open>i\<close> into sum
  \<open>i mod 8\<close>, the sums are combined as a balanced tree and the cells left over are added one
  by one; a longer column is split in two (the first part a multiple of 8 long) and the two
  sums are added.
\<close>

fun acc8 :: "rat list \<Rightarrow> rat list \<Rightarrow> rat list" where
  "acc8 r xs = (if length xs < 8 then r else acc8 (map2 fadd r (take 8 xs)) (drop 8 xs))"

declare acc8.simps [simp del]

definition split_point :: "nat \<Rightarrow> nat" where
  "split_point n = n div 2 - n div 2 mod 8"

function pairwise_sum :: "rat list \<Rightarrow> rat" where
  "pairwise_sum a =
     (if length a < 8 then foldl fadd 0 a
      else if length a \<le> 128 then
        (let m = length a - length a mod 8;
             r = acc8 (take 8 a) (drop 8 (take m a));
             res = fadd (fadd (fadd (r ! 0) (r ! 1)) (fadd (r ! 2) (r ! 3)))
                        (fadd (fadd (r ! 4) (r ! 5)) (fadd (r ! 6) (r ! 7)))
         in foldl fadd res (drop m a))
      else fadd (pairwise_sum (take (split_point (length a)) a))
                (pairwise_sum (drop (split_point (length a)) a)))"
  by pat_completeness auto
termination
  by (relation "measure length") (auto simp: split_point_def)

declare pairwise_sum.simps [simp del]

subsection \<open>Numbers: means, rounding, conversion, formatting\<close>

text \<open>
  \<^verbatim>\<open>Series.mean()\<close> is the sum divided by the count. \<^verbatim>\<open>Series.mean()\<close>, \<^verbatim>\<open>Series.min()\<close> and
  \<^verbatim>\<open>Series.max()\<close> of an empty column are NaN, written \<open>None\<close> here; they never raise.
\<close>

definition series_mean :: "rat list \<Rightarrow> rat option" where
  "series_mean xs = (if xs = [] then None else Some (fdiv (pairwise_sum xs) (of_nat (length xs))))"

fun series_min :: "rat list \<Rightarrow> rat option" where
  "series_min [] = None"
| "series_min (x # xs) = Some (fold min xs x)"

fun series_max :: "rat list \<Rightarrow> rat option" where
  "series_max [] = None"
| "series_max (x # xs) = Some (fold max xs x)"

text \<open>
  \<^verbatim>\<open>round(x, n)\<close> of a numpy float and \<^verbatim>\<open>Series.round(n)\<close>: numpy multiplies by \<open>10 ^ n\<close>, rounds
  to the nearest integer (a tie to the even one) and divides by \<open>10 ^ n\<close>, each step in
  float arithmetic.
\<close>

definition np_round :: "nat \<Rightarrow> rat \<Rightarrow> rat" where
  "np_round n x = fdiv (of_int (round_half_even (fmul x (10 ^ n)))) (10 ^ n)"

text \<open>
  \<^verbatim>\<open>int(x)\<close> of a float truncates towards zero; \<^verbatim>\<open>int(nan)\<close> raises \<^verbatim>\<open>ValueError\<close> and
  \<^verbatim>\<open>int(inf)\<close> raises \<^verbatim>\<open>OverflowError\<close>. A minimum or maximum of a column of finite cells
  is a number, or NaN when the column is empty.
\<close>

datatype error = ValueError | OverflowError | StreamlitAPIException | EmptySelection

datatype pyfloat = Nan | PosInf | NegInf | Num rat

definition as_pyfloat :: "rat option \<Rightarrow> pyfloat" where
  "as_pyfloat v = (case v of None \<Rightarrow> Nan | Some x \<Rightarrow> Num x)"

definition trunc :: "rat \<Rightarrow> int" where
  "trunc x = (if 0 \<le> x then \<lfloor>x\<rfloor> else \<lceil>x\<rceil>)"

fun py_int :: "pyfloat \<Rightarrow> error + int" where
  "py_int Nan = Inl ValueError"
| "py_int PosInf = Inl OverflowError"
| "py_int NegInf = Inl OverflowError"
| "py_int (Num x) = Inr (trunc x)"

text \<open>Decimal digits of a natural number, most significant first.\<close>

definition digit_char :: "nat \<Rightarrow> char" where
  "digit_char d = char_of (48 + d)"

fun show_nat :: "nat \<Rightarrow> string" where
  "show_nat n = (if n < 10 then [digit_char n] else show_nat (n div 10) @ [digit_char (n mod 10)])"

declare show_nat.simps [simp del]

text \<open>
  The format specification \<^verbatim>\<open>:.2f\<close> applied to a float: fixed point, two digits after the
  point, trailing zeros kept. Python converts the exact value of the double, correctly
  rounded to hundredths, a tie going to the even digit, and writes a minus sign when the
  sign bit is set, also for a zero. The float is given here by its sign bit and its value.
\<close>

definition format_2f :: "bool \<Rightarrow> rat \<Rightarrow> string" where
  "format_2f sign_bit x =
     (let h = nat (round_half_even (\<bar>x\<bar> * 100))
      in (if sign_bit then ''-'' else []) @ show_nat (h div 100) @ ''.'' @
         [digit_char (h div 10 mod 10), digit_char (h mod 10)])"

subsection \<open>The sidebar widgets (lines 42 to 69)\<close>

text \<open>\<^verbatim>\<open>Series.unique()\<close>: the distinct values, in order of first appearance.\<close>

definition unique :: "'a list \<Rightarrow> 'a list" where
  "unique xs = fold (\<lambda>x seen. if x \<in> set seen then seen else seen @ [x]) xs []"

text \<open>
  Line 63: \<^verbatim>\<open>min_mass, max_mass = int(df["body_mass_g"].min()), int(df["body_mass_g"].max())\<close>.
\<close>

definition mass_bounds :: "frame \<Rightarrow> error + (int \<times> int)" where
  "mass_bounds df =
     (case py_int (as_pyfloat (series_min (map body_mass_g df))) of
        Inl e \<Rightarrow> Inl e
      | Inr min_mass \<Rightarrow>
          (case py_int (as_pyfloat (series_max (map body_mass_g df))) of
             Inl e \<Rightarrow> Inl e
           | Inr max_mass \<Rightarrow> Inr (min_mass, max_mass)))"

text \<open>
  \<^verbatim>\<open>st.sidebar.slider(label, min_value=, max_value=, value=)\<close> with int arguments (lines 64
  to 69). Streamlit raises \<^verbatim>\<open>StreamlitAPIException\<close> unless both bounds are integers that
  JavaScript represents exactly (at most \<open>2 ^ 53 - 1\<close> in magnitude) and \<open>min_value\<close> is
  below \<open>max_value\<close>. A slider the user has not moved returns \<open>value\<close>.
\<close>

definition js_safe :: "int \<Rightarrow> bool" where
  "js_safe n = (- (2 ^ 53 - 1) \<le> n \<and> n \<le> 2 ^ 53 - 1)"

definition slider :: "int \<Rightarrow> int \<Rightarrow> int \<times> int \<Rightarrow> error + (int \<times> int)" where
  "slider min_value max_value val =
     (if js_safe min_value \<and> js_safe max_value \<and> min_value < max_value
      then Inr val else Inl StreamlitAPIException)"

text \<open>The widget values of a run in which the user has touched nothing.\<close>

definition default_selection :: "frame \<Rightarrow> error + selection" where
  "default_selection df =
     (case mass_bounds df of
        Inl e \<Rightarrow> Inl e
      | Inr (min_mass, max_mass) \<Rightarrow>
          (case slider min_mass max_mass (min_mass, max_mass) of
             Inl e \<Rightarrow> Inl e
           | Inr body_mass \<Rightarrow>
               Inr \<lparr>species_sel = [], island_sel = [], sex_sel = [],
                    body_mass_slider = body_mass\<rparr>))"

subsection \<open>Metrics and charts (lines 96 to 153)\<close>

text \<open>
  Lines 113 and 114: the mean is rounded to one decimal, the result is divided by 1000 in
  float arithmetic and the quotient is formatted. Rounding and division keep the sign bit
  of the mean (a mean of zero is taken as positive zero). A NaN formats as \<^verbatim>\<open>nan\<close>.
\<close>

definition avg_body_mass_label :: "frame \<Rightarrow> string" where
  "avg_body_mass_label v =
     (case series_mean (map body_mass_g v) of
        None \<Rightarrow> ''nan kg''
      | Some mean \<Rightarrow>
          let avg_body_mass = np_round 1 mean
          in format_2f (mean < 0) (fdiv avg_body_mass 1000) @ '' kg'')"

text \<open>
  \<^verbatim>\<open>groupby(key)[col].mean()\<close>. pandas keeps, per group, a running sum with a Kahan
  compensation term and a count, and divides at the end. With the default \<^verbatim>\<open>sort=True\<close> the
  groups come out in ascending order of the key. The groups are kept here as a list ordered
  by key; a group's state is (sum, compensation, count).
\<close>

type_synonym group_state = "rat \<times> rat \<times> nat"

definition kahan_add :: "rat \<Rightarrow> group_state \<Rightarrow> group_state" where
  "kahan_add val st =
     (case st of (sumx, compensation, nobs) \<Rightarrow>
        let y = fsub val compensation; t = fadd sumx y
        in (t, fsub (fsub t sumx) y, Suc nobs))"

fun group_add :: "string \<Rightarrow> rat \<Rightarrow> (string \<times> group_state) list \<Rightarrow> (string \<times> group_state) list" where
  "group_add k v [] = [(k, kahan_add v (0, 0, 0))]"
| "group_add k v ((k', st) # gs) =
     (if k = k' then (k', kahan_add v st) # gs
      else if k < k' then (k, kahan_add v (0, 0, 0)) # (k', st) # gs
      else (k', st) # group_add k v gs)"

definition groupby_mean :: "(penguin \<Rightarrow> string) \<Rightarrow> (penguin \<Rightarrow> rat) \<Rightarrow> frame \<Rightarrow> (string \<times> rat) list" where
  "groupby_mean key col v =
     map (\<lambda>(k, sumx, compensation, nobs). (k, fdiv sumx (of_nat nobs)))
         (fold (\<lambda>r. group_add (key r) (col r)) v [])"

text \<open>Line 144: \<^verbatim>\<open>df_selection.groupby('species')['body_mass_g'].mean().round(1)\<close>.\<close>

definition avg_mass_by_species :: "frame \<Rightarrow> (string \<times> rat) list" where
  "avg_mass_by_species v = map (\<lambda>(k, m). (k, np_round 1 m)) (groupby_mean species body_mass_g v)"

text \<open>What one run puts on the page when the filtered table is not empty.\<close>

record page =
  total_penguins :: nat
  avg_bill_length :: "rat option"
  avg_body_mass :: string
  scatter_chart :: "(rat \<times> rat \<times> string) list"
  bar_chart :: "(string \<times> rat) list"
  raw_data :: frame

text \<open>
  Lines 96 to 98: an empty filtered table shows a warning and \<^verbatim>\<open>st.stop()\<close> ends the run
  (\<open>EmptySelection\<close>); nothing below is evaluated. Otherwise the metrics, the two charts
  and the raw table are produced.
\<close>

definition render :: "frame \<Rightarrow> error + page" where
  "render v =
     (if v = [] then Inl EmptySelection
      else Inr \<lparr>total_penguins = length v,
                avg_bill_length = map_option (np_round 1) (series_mean (map bill_length_mm v)),
                avg_body_mass = avg_body_mass_label v,
                scatter_chart = map (\<lambda>r. (bill_length_mm r, bill_depth_mm r, species r)) v,
                bar_chart = avg_mass_by_species v,
                raw_data = v\<rparr>)"

text \<open>Filtering followed by rendering: the table and the widget values in, the page out.\<close>

definition pipeline :: "frame \<Rightarrow> selection \<Rightarrow> error + page" where
  "pipeline df c = render (df_selection df c)"

subsection \<open>The run over a store of data frames\<close>

text \<open>
  In Python \<^verbatim>\<open>df\<close> and \<^verbatim>\<open>df_selection\<close> are names bound to data-frame objects. The store maps
  an address to the rows of the object there; \<open>fresh\<close> is the next unused address.
  \<^verbatim>\<open>df.copy()\<close> and a boolean-mask selection \<^verbatim>\<open>d[mask]\<close> each build a new object; the
  script never writes to an existing one.
\<close>

type_synonym addr = nat

record session =
  heap :: "addr \<Rightarrow> frame"
  fresh :: addr
  df_ref :: addr

definition alloc :: "frame \<Rightarrow> session \<Rightarrow> addr \<times> session" where
  "alloc f s = (fresh s, s\<lparr>heap := (heap s)(fresh s := f), fresh := Suc (fresh s)\<rparr>)"

definition copy :: "addr \<Rightarrow> session \<Rightarrow> addr \<times> session" where
  "copy a s = alloc (heap s a) s"

definition getitem_mask :: "(penguin \<Rightarrow> bool) \<Rightarrow> addr \<Rightarrow> session \<Rightarrow> addr \<times> session" where
  "getitem_mask keep a s = alloc (filter keep (heap s a)) s"

text \<open>Lines 74 to 90 again, now with the name \<^verbatim>\<open>df_selection\<close> rebound step by step.\<close>

definition filter_stage :: "selection \<Rightarrow> session \<Rightarrow> addr \<times> session" where
  "filter_stage c s =
     (let (a0, s0) = copy (df_ref s) s;
          (a1, s1) = (if species_sel c \<noteq> []
                      then getitem_mask (\<lambda>r. isin (species r) (species_sel c)) a0 s0 else (a0, s0));
          (a2, s2) = (if island_sel c \<noteq> []
                      then getitem_mask (\<lambda>r. isin (island r) (island_sel c)) a1 s1 else (a1, s1));
          (a3, s3) = (if sex_sel c \<noteq> []
                      then getitem_mask (\<lambda>r. isin (sex r) (sex_sel c)) a2 s2 else (a2, s2))
      in getitem_mask (\<lambda>r. of_int (fst (body_mass_slider c)) \<le> body_mass_g r \<and>
                            body_mass_g r \<le> of_int (snd (body_mass_slider c))) a3 s3)"

definition rerun :: "selection \<Rightarrow> session \<Rightarrow> (error + page) \<times> session" where
  "rerun c s = (let (a, s') = filter_stage c s in (render (heap s' a), s'))"

text \<open>The session left behind by a sequence of runs, one per list of widget values.\<close>

definition session_after :: "selection list \<Rightarrow> session \<Rightarrow> session" where
  "session_after cs s = fold (\<lambda>c s. snd (rerun c s)) cs s"

subsection \<open>Whole-gram tables\<close>


subsection \<open>Sample data\<close>

text \<open>The sample cells are binary fractions, so each is the value of a double.\<close>

definition adelie1 :: penguin where
  "adelie1 = \<lparr>species = ''Adelie'', island = ''Torgersen'', sex = ''male'',
     bill_length_mm = 79 / 2, bill_depth_mm = 75 / 4, body_mass_g = 3750\<rparr>"

definition gentoo1 :: penguin where
  "gentoo1 = \<lparr>species = ''Gentoo'', island = ''Biscoe'', sex = ''female'',
     bill_length_mm = 93 / 2, bill_depth_mm = 53 / 4, body_mass_g = 4500\<rparr>"

definition sample_df :: frame where
  "sample_df = [adelie1, gentoo1]"

definition sample_sel :: selection where
  "sample_sel = \<lparr>species_sel = [''Adelie''], island_sel = [], sex_sel = [],
     body_mass_slider = (3000, 5000)\<rparr>"

text \<open>Further widget values: a species the table lacks, and three sliders.\<close>

definition none_sel :: selection where
  "none_sel = \<lparr>species_sel = [''Chinstrap''], island_sel = [], sex_sel = [],
     body_mass_slider = (3000, 5000)\<rparr>"

definition wide_sel :: selection where
  "wide_sel = \<lparr>species_sel = [], island_sel = [], sex_sel = [], body_mass_slider = (3000, 5000)\<rparr>"

definition full_sel :: selection where
  "full_sel = \<lparr>species_sel = [], island_sel = [], sex_sel = [], body_mass_slider = (3750, 4500)\<rparr>"

definition point_sel :: selection where
  "point_sel = \<lparr>species_sel = [], island_sel = [], sex_sel = [], body_mass_slider = (4500, 4500)\<rparr>"

definition sample_session :: session where
  "sample_session = \<lparr>heap = (\<lambda>_. [])(0 := sample_df), fresh = 1, df_ref = 0\<rparr>"





text \<open>Two rows whose body masses are not whole numbers of grams.\<close>

definition frac_df :: frame where
  "frac_df = [adelie1\<lparr>body_mass_g := 7501 / 2\<rparr>, gentoo1\<lparr>body_mass_g := 9001 / 2\<rparr>]"



text \<open>The four clauses a row has to pass, as one predicate.\<close>

definition passes :: "selection \<Rightarrow> penguin \<Rightarrow> bool" where
  "passes c r =
     ((species_sel c = [] \<or> species r \<in> set (species_sel c)) \<and>
      (island_sel c = [] \<or> island r \<in> set (island_sel c)) \<and>
      (sex_sel c = [] \<or> sex r \<in> set (sex_sel c)) \<and>
      of_int (fst (body_mass_slider c)) \<le> body_mass_g r \<and>
      body_mass_g r \<le> of_int (snd (body_mass_slider c)))"

section \<open>Auxiliary facts\<close>

subsection \<open>Float arithmetic on whole numbers is exact\<close>














subsection \<open>Filtering\<close>

lemma df_selection_filter: "df_selection df c = filter (passes c) df"
  by (auto simp: df_selection_def passes_def isin_def Let_def intro: filter_cong)

lemma sample_selection: "df_selection sample_df sample_sel = [adelie1]"
  by (simp add: df_selection_def sample_df_def sample_sel_def adelie1_def gentoo1_def isin_def)

subsection \<open>Groups\<close>













subsection \<open>Minimum, maximum, distinct values\<close>

lemma series_min_Min: "xs \<noteq> [] \<Longrightarrow> series_min xs = Some (Min (set xs))"
  by (cases xs) (simp_all add: Min.set_eq_fold [symmetric])

lemma series_max_Max: "xs \<noteq> [] \<Longrightarrow> series_max xs = Some (Max (set xs))"
  by (cases xs) (simp_all add: Max.set_eq_fold [symmetric])

lemma series_min_le: "series_min xs = Some m \<Longrightarrow> x \<in> set xs \<Longrightarrow> m \<le> x"
proof -
  assume a: "series_min xs = Some m" and x: "x \<in> set xs"
  then have "xs \<noteq> []" by auto
  from series_min_Min [OF this] a have "m = Min (set xs)" by simp
  with x show ?thesis by simp
qed

lemma series_max_ge: "series_max xs = Some m \<Longrightarrow> x \<in> set xs \<Longrightarrow> x \<le> m"
proof -
  assume a: "series_max xs = Some m" and x: "x \<in> set xs"
  then have "xs \<noteq> []" by auto
  from series_max_Max [OF this] a have "m = Max (set xs)" by simp
  with x show ?thesis by simp
qed

lemma fold_seen_set:
  "set (fold (\<lambda>x seen. if x \<in> set seen then seen else seen @ [x]) xs acc) = set acc \<union> set xs"
  by (induction xs arbitrary: acc) auto

lemma set_unique: "set (unique xs) = set xs"
  by (simp add: unique_def fold_seen_set)

lemma trunc_of_int: "trunc (of_int i) = i"
  by (simp add: trunc_def)

subsection \<open>Rendering, formatting and the store\<close>

lemma filter_stage_effect:
  "filter_stage c s = (a, s') \<Longrightarrow>
     heap s' a = df_selection (heap s (df_ref s)) c \<and> df_ref s' = df_ref s \<and>
     fresh s \<le> a \<and> a < fresh s' \<and> (\<forall>b. b < fresh s \<longrightarrow> heap s' b = heap s b)"
  by (auto simp: filter_stage_def copy_def getitem_mask_def alloc_def df_selection_def Let_def
      split: if_splits)

lemma rerun_effect:
  "fst (rerun c s) = pipeline (heap s (df_ref s)) c \<and> df_ref (snd (rerun c s)) = df_ref s \<and>
   fresh s < fresh (snd (rerun c s)) \<and>
   (\<forall>b. b < fresh s \<longrightarrow> heap (snd (rerun c s)) b = heap s b)"
proof -
  obtain a s' where fs: "filter_stage c s = (a, s')" by (cases "filter_stage c s")
  from filter_stage_effect [OF fs] show ?thesis
    by (auto simp: rerun_def fs pipeline_def)
qed

lemma session_after_df:
  "df_ref s < fresh s \<Longrightarrow>
     df_ref (session_after cs s) < fresh (session_after cs s) \<and>
     df_ref (session_after cs s) = df_ref s \<and>
     heap (session_after cs s) (df_ref s) = heap s (df_ref s)"
proof (induction cs arbitrary: s)
  case Nil
  then show ?case by (simp add: session_after_def)
next
  case (Cons c cs)
  let ?s = "snd (rerun c s)"
  from rerun_effect [of c s] Cons.prems
  have wf: "df_ref ?s < fresh ?s" and r: "df_ref ?s = df_ref s"
    and h: "heap ?s (df_ref s) = heap s (df_ref s)" by auto
  have step: "session_after (c # cs) s = session_after cs ?s"
    by (simp add: session_after_def)
  from Cons.IH [OF wf] r h show ?case unfolding step by simp
qed

lemma sample_session_df: "heap sample_session (df_ref sample_session) = sample_df"
  by (simp add: sample_session_def)









subsection \<open>The sample tables\<close>















section \<open>Properties of the filtering stage\<close>

text \<open>
  C1. Whatever the table and the widget values, the filtered table is an order-preserving
  subsequence of the table, and each of its rows passes all four clauses at once: species,
  island and sex are among the selected values (or nothing is selected for that field),
  and the body mass lies between the slider bounds, both ends included.
\<close>

theorem df_selection_subseq_sound:
  "subseq (df_selection df c) df \<and>
   (\<forall>r \<in> set (df_selection df c).
      (species_sel c = [] \<or> species r \<in> set (species_sel c)) \<and>
      (island_sel c = [] \<or> island r \<in> set (island_sel c)) \<and>
      (sex_sel c = [] \<or> sex r \<in> set (sex_sel c)) \<and>
      of_int (fst (body_mass_slider c)) \<le> body_mass_g r \<and>
      body_mass_g r \<le> of_int (snd (body_mass_slider c)))"
proof
  show "subseq (df_selection df c) df"
    by (simp add: df_selection_filter)
next
  show "\<forall>r \<in> set (df_selection df c).
      (species_sel c = [] \<or> species r \<in> set (species_sel c)) \<and>
      (island_sel c = [] \<or> island r \<in> set (island_sel c)) \<and>
      (sex_sel c = [] \<or> sex r \<in> set (sex_sel c)) \<and>
      of_int (fst (body_mass_slider c)) \<le> body_mass_g r \<and>
      body_mass_g r \<le> of_int (snd (body_mass_slider c))"
    by (simp add: df_selection_filter passes_def)
qed

theorem df_selection_subseq_sound_witness:
  "df_selection sample_df sample_sel = [adelie1] \<and>
   subseq [adelie1] sample_df \<and>
   species adelie1 \<in> set (species_sel sample_sel) \<and>
   island_sel sample_sel = [] \<and> sex_sel sample_sel = [] \<and>
   (3000 :: rat) \<le> body_mass_g adelie1 \<and> body_mass_g adelie1 \<le> 5000"
  using df_selection_subseq_sound [of sample_df sample_sel]
  unfolding sample_selection
  by (simp add: sample_sel_def)



section \<open>The body-mass metric\<close>




section \<open>The slider's initial range\<close>

text \<open>
  The initial range is not always the observed range. For two rows of 3750.5 g and 4500.5 g
  the slider starts at (3750, 4500): \<^verbatim>\<open>int\<close> cuts the fractions off, and the default widget
  values then keep only one of the two rows.
\<close>

theorem default_range_exact_counterexample:
  "default_selection frac_df = Inr full_sel \<and>
   body_mass_slider full_sel = (3750, 4500) \<and>
   series_min (map body_mass_g frac_df) = Some (7501 / 2) \<and>
   series_max (map body_mass_g frac_df) = Some (9001 / 2) \<and>
   length (df_selection frac_df full_sel) = 1 \<and> length frac_df = 2"
  by code_simp

text \<open>
  C4, as the script computes it. Take a loaded table of finite body masses on which the run
  gets past the slider: the table is not empty, \<^verbatim>\<open>int\<close> of the minimum is below \<^verbatim>\<open>int\<close> of the
  maximum, and both are at most \<open>2 ^ 53 - 1\<close> in magnitude. Then, and only then, the untouched
  widgets yield a value; the initial slider range is the observed minimum and maximum of
  \<open>body_mass_g\<close>, each truncated towards zero by \<^verbatim>\<open>int\<close>, and it equals the observed minimum
  (maximum) exactly whenever that value is a whole number.
\<close>

theorem default_range_truncates:
  "(default_selection df = Inr c \<longrightarrow>
      df \<noteq> [] \<and>
      body_mass_slider c =
        (trunc (Min (body_mass_g ` set df)), trunc (Max (body_mass_g ` set df))) \<and>
      species_sel c = [] \<and> island_sel c = [] \<and> sex_sel c = [] \<and>
      trunc (Min (body_mass_g ` set df)) < trunc (Max (body_mass_g ` set df)) \<and>
      js_safe (trunc (Min (body_mass_g ` set df))) \<and>
      js_safe (trunc (Max (body_mass_g ` set df))) \<and>
      (Min (body_mass_g ` set df) \<in> \<int> \<longrightarrow>
         of_int (fst (body_mass_slider c)) = Min (body_mass_g ` set df)) \<and>
      (Max (body_mass_g ` set df) \<in> \<int> \<longrightarrow>
         of_int (snd (body_mass_slider c)) = Max (body_mass_g ` set df))) \<and>
   (df \<noteq> [] \<and> js_safe (trunc (Min (body_mass_g ` set df))) \<and>
    js_safe (trunc (Max (body_mass_g ` set df))) \<and>
    trunc (Min (body_mass_g ` set df)) < trunc (Max (body_mass_g ` set df)) \<longrightarrow>
      (\<exists>c. default_selection df = Inr c))"
proof -
  let ?lo = "trunc (Min (body_mass_g ` set df))" and ?hi = "trunc (Max (body_mass_g ` set df))"
  have empty: "default_selection [] = Inl ValueError"
    by (simp add: default_selection_def mass_bounds_def as_pyfloat_def)
  have exact: "of_int (trunc x) = x" if "x \<in> \<int>" for x :: rat
    using that by (auto simp: Ints_def trunc_of_int)
  show ?thesis
  proof (cases "df = []")
    case True
    then show ?thesis by (simp add: empty)
  next
    case False
    then have ne: "map body_mass_g df \<noteq> []" by simp
    have mb: "mass_bounds df = Inr (?lo, ?hi)"
      using series_min_Min [OF ne] series_max_Max [OF ne]
      by (simp add: mass_bounds_def as_pyfloat_def)
    show ?thesis
    proof (cases "js_safe ?lo \<and> js_safe ?hi \<and> ?lo < ?hi")
      case True
      then have "default_selection df =
          Inr \<lparr>species_sel = [], island_sel = [], sex_sel = [], body_mass_slider = (?lo, ?hi)\<rparr>"
        by (simp add: default_selection_def mb slider_def)
      with True False exact show ?thesis by auto
    next
      case no: False
      then have "default_selection df = Inl StreamlitAPIException"
        by (simp add: default_selection_def mb slider_def)
      with no show ?thesis by auto
    qed
  qed
qed

theorem default_range_truncates_witness:
  "default_selection sample_df = Inr full_sel \<and> body_mass_slider full_sel = (3750, 4500) \<and>
   Min (body_mass_g ` set sample_df) = 3750 \<and> Max (body_mass_g ` set sample_df) = 4500 \<and>
   sample_df \<noteq> []"
proof -
  have mn: "Min (body_mass_g ` set sample_df) = 3750"
    and mx: "Max (body_mass_g ` set sample_df) = 4500"
    by (simp_all add: sample_df_def adelie1_def gentoo1_def)
  have ne: "sample_df \<noteq> []" by (simp add: sample_df_def)
  have safe: "js_safe (trunc 3750)" "js_safe (trunc 4500)" "trunc 3750 < trunc 4500"
    by (simp_all add: js_safe_def trunc_def)
  from default_range_truncates [of sample_df] ne safe
  obtain c where c: "default_selection sample_df = Inr c"
    unfolding mn mx by blast
  from default_range_truncates [of sample_df c] c
  have "body_mass_slider c = (trunc 3750, trunc 4500)" "species_sel c = []"
    "island_sel c = []" "sex_sel c = []"
    unfolding mn mx by blast+
  then have "c = full_sel"
    by (simp add: full_sel_def trunc_def)
  with c mn mx ne show ?thesis by (simp add: full_sel_def)
qed

section \<open>The bar chart\<close>




section \<open>Selections that change nothing, and point ranges\<close>

text \<open>
  C6. With nothing selected in the three multiselects and the slider set to the table's true
  minimum and maximum of \<open>body_mass_g\<close>, the filtered table is the whole table, and the
  ``Total Penguins'' metric is the number of rows of the table.
\<close>

theorem full_range_keeps_all:
  assumes "species_sel c = []" and "island_sel c = []" and "sex_sel c = []"
    and "series_min (map body_mass_g df) = Some (of_int (fst (body_mass_slider c)))"
    and "series_max (map body_mass_g df) = Some (of_int (snd (body_mass_slider c)))"
  shows "df_selection df c = df \<and>
    (\<exists>p. pipeline df c = Inr p \<and> raw_data p = df \<and> total_penguins p = length df)"
proof -
  have "passes c r" if "r \<in> set df" for r
  proof -
    from that have "body_mass_g r \<in> set (map body_mass_g df)" by simp
    from series_min_le [OF assms(4) this] series_max_ge [OF assms(5) this]
    show ?thesis using assms(1-3) by (simp add: passes_def)
  qed
  then have all: "df_selection df c = df"
    by (simp add: df_selection_filter)
  from assms(4) have "df \<noteq> []" by auto
  with all have "\<exists>p. pipeline df c = Inr p \<and> raw_data p = df \<and> total_penguins p = length df"
    by (simp add: pipeline_def render_def)
  with all show ?thesis by blast
qed

theorem full_range_keeps_all_witness:
  "series_min (map body_mass_g sample_df) = Some (of_int (fst (body_mass_slider full_sel))) \<and>
   series_max (map body_mass_g sample_df) = Some (of_int (snd (body_mass_slider full_sel))) \<and>
   df_selection sample_df full_sel = sample_df \<and>
   (\<exists>p. pipeline sample_df full_sel = Inr p \<and> total_penguins p = 2)"
proof -
  have a: "species_sel full_sel = []" "island_sel full_sel = []" "sex_sel full_sel = []"
    by (simp_all add: full_sel_def)
  have mn: "series_min (map body_mass_g sample_df) = Some (of_int (fst (body_mass_slider full_sel)))"
    and mx: "series_max (map body_mass_g sample_df) = Some (of_int (snd (body_mass_slider full_sel)))"
    by (simp_all add: sample_df_def adelie1_def gentoo1_def full_sel_def)
  have len: "length sample_df = 2" by (simp add: sample_df_def)
  from full_range_keeps_all [OF a mn mx] len mn mx show ?thesis by auto
qed

text \<open>
  C7. Replacing an empty multiselect (species, island or sex) by all distinct values of that
  column in the table gives the same filtered table: selecting everything equals selecting
  nothing.
\<close>

theorem select_all_is_noop:
  "(species_sel c = [] \<longrightarrow>
      df_selection df (c\<lparr>species_sel := unique (map species df)\<rparr>) = df_selection df c) \<and>
   (island_sel c = [] \<longrightarrow>
      df_selection df (c\<lparr>island_sel := unique (map island df)\<rparr>) = df_selection df c) \<and>
   (sex_sel c = [] \<longrightarrow>
      df_selection df (c\<lparr>sex_sel := unique (map sex df)\<rparr>) = df_selection df c)"
  unfolding df_selection_filter
  by (intro conjI impI filter_cong refl) (auto simp: passes_def set_unique)

theorem select_all_is_noop_witness:
  "species_sel wide_sel = [] \<and> island_sel wide_sel = [] \<and> sex_sel wide_sel = [] \<and>
   unique (map species sample_df) = [''Adelie'', ''Gentoo''] \<and>
   df_selection sample_df (wide_sel\<lparr>species_sel := [''Adelie'', ''Gentoo'']\<rparr>) =
     df_selection sample_df wide_sel \<and>
   df_selection sample_df (wide_sel\<lparr>island_sel := unique (map island sample_df)\<rparr>) =
     df_selection sample_df wide_sel \<and>
   df_selection sample_df (wide_sel\<lparr>sex_sel := unique (map sex sample_df)\<rparr>) =
     df_selection sample_df wide_sel"
proof -
  have a: "species_sel wide_sel = []" "island_sel wide_sel = []" "sex_sel wide_sel = []"
    by (simp_all add: wide_sel_def)
  have u: "unique (map species sample_df) = [''Adelie'', ''Gentoo'']"
    by (simp add: unique_def sample_df_def adelie1_def gentoo1_def)
  from select_all_is_noop [of wide_sel sample_df] a u show ?thesis by simp
qed

text \<open>
  C8. For a body mass \<open>x\<close> observed in the table, the slider set to \<open>(x, x)\<close> with empty
  multiselects yields exactly the rows whose \<open>body_mass_g\<close> equals \<open>x\<close> (the observed row
  among them). The slider holds Python ints, so \<open>x\<close> is a whole number of grams.
\<close>

theorem point_range_selects_equal_mass:
  assumes "r0 \<in> set df" and "body_mass_g r0 = of_int x"
    and "species_sel c = []" and "island_sel c = []" and "sex_sel c = []"
    and "body_mass_slider c = (x, x)"
  shows "df_selection df c = filter (\<lambda>r. body_mass_g r = of_int x) df \<and>
    r0 \<in> set (df_selection df c)"
proof -
  have "passes c = (\<lambda>r. body_mass_g r = of_int x)"
    using assms(3-6) by (auto simp: passes_def fun_eq_iff)
  then have "df_selection df c = filter (\<lambda>r. body_mass_g r = of_int x) df"
    by (simp add: df_selection_filter)
  with assms(1,2) show ?thesis by simp
qed

theorem point_range_selects_equal_mass_witness:
  "gentoo1 \<in> set sample_df \<and> body_mass_g gentoo1 = of_int 4500 \<and>
   body_mass_slider point_sel = (4500, 4500) \<and>
   df_selection sample_df point_sel = [gentoo1]"
proof -
  have a: "gentoo1 \<in> set sample_df" by (simp add: sample_df_def)
  have b: "body_mass_g gentoo1 = of_int 4500" by (simp add: gentoo1_def)
  have c: "species_sel point_sel = []" "island_sel point_sel = []" "sex_sel point_sel = []"
    "body_mass_slider point_sel = (4500, 4500)"
    by (simp_all add: point_sel_def)
  have "filter (\<lambda>r. body_mass_g r = of_int 4500) sample_df = [gentoo1]"
    by (simp add: sample_df_def adelie1_def gentoo1_def)
  with point_range_selects_equal_mass [OF a b c] a b c(4) show ?thesis by simp
qed

section \<open>Runs over the store\<close>

text \<open>
  C9. The page of a run depends on the table and the widget values only, not on what ran
  before. In a session where \<^verbatim>\<open>df\<close> is bound to an existing object, run the script any number
  of times with any widget values, then run it with widget values \<open>c\<close>: the outcome (warning,
  or page with filtered table, metrics, bar chart and scatter points) is the one a first run
  with \<open>c\<close> gives, namely the pipeline applied to the loaded table and \<open>c\<close>. Two sessions whose
  \<^verbatim>\<open>df\<close> holds the same rows give the same outcome under the same widget values.
\<close>

theorem rerun_deterministic:
  assumes "df_ref s < fresh s"
  shows "fst (rerun c (session_after cs s)) = fst (rerun c s) \<and>
    fst (rerun c s) = pipeline (heap s (df_ref s)) c \<and>
    heap (session_after cs s) (df_ref (session_after cs s)) = heap s (df_ref s) \<and>
    (df_ref t < fresh t \<and> heap t (df_ref t) = heap s (df_ref s) \<longrightarrow>
       fst (rerun c (session_after cs' t)) = fst (rerun c (session_after cs s)))"
proof -
  have same: "heap (session_after cs s) (df_ref (session_after cs s)) = heap s (df_ref s)"
    using session_after_df [OF assms] by simp
  have 1: "fst (rerun c (session_after cs s)) = fst (rerun c s)"
    using rerun_effect [of c s] rerun_effect [of c "session_after cs s"] same by simp
  have 2: "fst (rerun c s) = pipeline (heap s (df_ref s)) c"
    using rerun_effect [of c s] by simp
  have 3: "fst (rerun c (session_after cs' t)) = fst (rerun c (session_after cs s))"
    if "df_ref t < fresh t" "heap t (df_ref t) = heap s (df_ref s)"
    using rerun_effect [of c "session_after cs' t"] rerun_effect [of c "session_after cs s"]
      session_after_df [OF that(1), of cs'] same that(2) by simp
  from 1 2 3 same show ?thesis by blast
qed

theorem rerun_deterministic_witness:
  "df_ref sample_session < fresh sample_session \<and>
   map_sum id total_penguins (fst (rerun full_sel sample_session)) = Inr 2 \<and>
   map_sum id total_penguins
     (fst (rerun full_sel (session_after [sample_sel, none_sel] sample_session))) = Inr 2"
proof -
  have wf: "df_ref sample_session < fresh sample_session" by (simp add: sample_session_def)
  have sel: "df_selection sample_df full_sel = sample_df"
    by (simp add: df_selection_filter passes_def sample_df_def full_sel_def adelie1_def
        gentoo1_def)
  have "map_sum id total_penguins (pipeline sample_df full_sel) = Inr 2"
    by (simp add: pipeline_def render_def sel) (simp add: sample_df_def)
  with rerun_deterministic [OF wf, of full_sel "[sample_sel, none_sel]"] wf
  show ?thesis by (simp add: sample_session_df)
qed

text \<open>
  C10. A run leaves the loaded table as it was: \<^verbatim>\<open>df\<close> is bound to the same object, that
  object holds the same rows (as does every object that existed before the run), and the
  filtered table is a different object from \<^verbatim>\<open>df\<close>.
\<close>

theorem rerun_keeps_df:
  assumes "df_ref s < fresh s"
  shows "df_ref (snd (rerun c s)) = df_ref s \<and>
    heap (snd (rerun c s)) (df_ref s) = heap s (df_ref s) \<and>
    (\<forall>b. b < fresh s \<longrightarrow> heap (snd (rerun c s)) b = heap s b) \<and>
    fst (filter_stage c s) \<noteq> df_ref s"
proof -
  obtain a s' where fs: "filter_stage c s = (a, s')" by (cases "filter_stage c s")
  from filter_stage_effect [OF fs] assms have "a \<noteq> df_ref s" by auto
  with rerun_effect [of c s] assms fs show ?thesis by simp
qed

theorem rerun_keeps_df_witness:
  "df_ref sample_session < fresh sample_session \<and>
   heap (snd (rerun sample_sel sample_session)) 0 = sample_df \<and>
   df_ref (snd (rerun sample_sel sample_session)) = 0"
proof -
  have wf: "df_ref sample_session < fresh sample_session" by (simp add: sample_session_def)
  from rerun_keeps_df [OF wf, of sample_sel] wf show ?thesis
    by (simp add: sample_session_def)
qed

end
